theory Spec2Isabelle
  imports Main "HOL-Library.Word"
begin

section \<open>The cookie session backend of session/sess_cookie.go\<close>

text \<open>
  The file implements a session store whose whole state travels in one HTTP cookie.
  It has two types: \<open>CookieSessionStore\<close>, the per-request key/value view, and
  \<open>CookieProvider\<close>, the process-wide factory holding the configuration and the
  cipher. The codec (\<open>encodeCookie\<close>, \<open>decodeCookie\<close>) and \<open>generateRandomKey\<close>
  live in another file of the package; what the standard library does
  (\<open>json.Unmarshal\<close>, \<open>aes.NewCipher\<close>, \<open>url.QueryEscape\<close>, \<open>http.SetCookie\<close>) is
  modelled only as far as this file depends on it.

  Conventions of the embedding:
  \<^item> a Go \<open>interface{}\<close> value is \<open>'a iface\<close>: the nil interface, or a dynamic value.
    Map keys range over dynamic values Go can hash and compare with a reflexive
    equality (a key of slice, map or function type makes the Go map operations panic,
    and a floating-point NaN is never found again; neither is represented);
  \<^item> \<open>map[interface{}]interface{}\<close> is a partial function, and a map variable is an
    \<open>option\<close> of one, \<open>None\<close> being the nil map;
  \<^item> a struct is a record, and its zero value (\<open>&CookieProvider{}\<close>,
    \<open>new(CookieSessionStore)\<close>) the record of zero fields: nil pointers and nil maps;
  \<^item> a method takes its receiver as first argument, a non-nil pointer; mutation of the
    receiver is returned as the updated record;
  \<^item> a run-time panic is the \<open>Inl\<close> branch of a sum, a returned \<open>error\<close> is an
    \<open>error option\<close> (\<open>None\<close> is the nil error);
  \<^item> \<open>sync.RWMutex\<close> is not represented: every method holds the lock for its whole
    body, so each call is one atomic step on the record;
  \<^item> \<open>int64\<close> and \<open>int\<close> fields are \<open>int\<close>: the file stores and passes them on and
    does no arithmetic on them.
\<close>

subsection \<open>Go values\<close>

datatype 'a iface = nil | Val 'a

type_synonym byte = "8 word"

type_synonym ('k, 'v) gomap = "'k iface \<rightharpoonup> 'v iface"

datatype error = aes_KeySizeError int | other_error string

datatype panic = nil_pointer_dereference | assignment_to_entry_in_nil_map

text \<open>\<open>[]byte(s)\<close> and \<open>string(b)\<close>: the same bytes, in the other type.\<close>

definition bytes_of_string :: "string \<Rightarrow> byte list" where
  "bytes_of_string s = map of_char s"

definition string_of_bytes :: "byte list \<Rightarrow> string" where
  "string_of_bytes b = map (\<lambda>w. char_of (unat w)) b"

subsection \<open>CookieSessionStore\<close>

record ('k, 'v) CookieSessionStore =
  sid :: string
  "values" :: "('k, 'v) gomap option"

text \<open>A map variable read as a mapping: the nil map has no entries.\<close>

definition entries :: "('k, 'v) gomap option \<Rightarrow> ('k, 'v) gomap" where
  "entries vs = (case vs of None \<Rightarrow> Map.empty | Some m \<Rightarrow> m)"

text \<open>\<open>st.values[key] = value\<close>; Go panics when the map is nil.\<close>

definition CookieSessionStore_Set ::
  "('k, 'v) CookieSessionStore \<Rightarrow> 'k iface \<Rightarrow> 'v iface
    \<Rightarrow> panic + (('k, 'v) CookieSessionStore \<times> error option)" where
  "CookieSessionStore_Set st key val =
     (case values st of
        None \<Rightarrow> Inl assignment_to_entry_in_nil_map
      | Some m \<Rightarrow> Inr (st\<lparr>values := Some (m(key \<mapsto> val))\<rparr>, None))"

text \<open>\<open>if v, ok := st.values[key]; ok { return v } else { return nil }\<close>; reading a nil
  map finds nothing.\<close>

definition CookieSessionStore_Get ::
  "('k, 'v) CookieSessionStore \<Rightarrow> 'k iface \<Rightarrow> 'v iface" where
  "CookieSessionStore_Get st key =
     (case values st of
        None \<Rightarrow> nil
      | Some m \<Rightarrow> (case m key of Some v \<Rightarrow> v | None \<Rightarrow> nil))"

text \<open>\<open>delete(st.values, key)\<close>; a no-op on a nil map and on an absent key.\<close>

definition CookieSessionStore_Delete ::
  "('k, 'v) CookieSessionStore \<Rightarrow> 'k iface
    \<Rightarrow> ('k, 'v) CookieSessionStore \<times> error option" where
  "CookieSessionStore_Delete st key =
     (case values st of
        None \<Rightarrow> (st, None)
      | Some m \<Rightarrow> (st\<lparr>values := Some (m(key := None))\<rparr>, None))"

text \<open>\<open>st.values = make(map[interface{}]interface{})\<close>.\<close>

definition CookieSessionStore_Flush ::
  "('k, 'v) CookieSessionStore \<Rightarrow> ('k, 'v) CookieSessionStore \<times> error option" where
  "CookieSessionStore_Flush st = (st\<lparr>values := Some Map.empty\<rparr>, None)"

definition CookieSessionStore_SessionID :: "('k, 'v) CookieSessionStore \<Rightarrow> string" where
  "CookieSessionStore_SessionID st = sid st"

subsection \<open>CookieProvider\<close>

record cookieConfig =
  SecurityKey :: string
  BlockKey :: string
  SecurityName :: string
  CookieName :: string
  Secure :: bool
  Maxage :: int

text \<open>A \<open>cipher.Block\<close> made by \<open>aes.NewCipher\<close>: the AES cipher of a key.\<close>

datatype cipher_Block = aesCipher "byte list"

record CookieProvider =
  maxlifetime :: int
  config :: "cookieConfig option"
  block :: "cipher_Block option"

text \<open>\<open>var cookiepder = &CookieProvider{}\<close>: the package variable before any
  \<open>SessionInit\<close>.\<close>

definition cookiepder_zero :: CookieProvider where
  "cookiepder_zero = \<lparr>maxlifetime = 0, config = None, block = None\<rparr>"

text \<open>\<open>&cookieConfig{}\<close>.\<close>

definition cookieConfig_zero :: cookieConfig where
  "cookieConfig_zero =
     \<lparr>SecurityKey = [], BlockKey = [], SecurityName = [], CookieName = [],
      Secure = False, Maxage = 0\<rparr>"

text \<open>The methods the registry demands and this backend has no use for.\<close>

definition CookieProvider_SessionExist :: "CookieProvider \<Rightarrow> string \<Rightarrow> bool" where
  "CookieProvider_SessionExist pder sid' = True"

definition CookieProvider_SessionRegenerate ::
  "CookieProvider \<Rightarrow> string \<Rightarrow> string
    \<Rightarrow> ('k, 'v) CookieSessionStore option \<times> error option" where
  "CookieProvider_SessionRegenerate pder oldsid sid' = (None, None)"

definition CookieProvider_SessionDestroy :: "CookieProvider \<Rightarrow> string \<Rightarrow> error option" where
  "CookieProvider_SessionDestroy pder sid' = None"

definition CookieProvider_SessionGC :: "CookieProvider \<Rightarrow> CookieProvider" where
  "CookieProvider_SessionGC pder = pder"

definition CookieProvider_SessionAll :: "CookieProvider \<Rightarrow> int" where
  "CookieProvider_SessionAll pder = 0"

definition CookieProvider_SessionUpdate :: "CookieProvider \<Rightarrow> string \<Rightarrow> error option" where
  "CookieProvider_SessionUpdate pder sid' = None"

subsection \<open>SessionInit\<close>

text \<open>\<open>aes.NewCipher\<close> accepts keys of 16, 24 and 32 bytes and answers any other length
  with \<open>KeySizeError\<close>.\<close>

definition aes_NewCipher :: "byte list \<Rightarrow> error + cipher_Block" where
  "aes_NewCipher key =
     (let k = length key
      in if k = 16 \<or> k = 24 \<or> k = 32 then Inr (aesCipher key)
         else Inl (aes_KeySizeError (int k)))"

text \<open>
  \<open>SessionInit\<close> takes what it calls from outside this file as parameters:
  \<^item> \<open>json_Unmarshal\<close>, the standard library's parser: given the payload and the struct
    to fill, it returns the struct as far as it filled it, and an error or nil;
  \<^item> \<open>generateRandomKey\<close>, of this package: given a length and the state of the entropy
    source, it returns bytes and the next state.
  The receiver is updated field by field as the source does it: \<open>config\<close> first, also
  when parsing fails; \<open>block\<close> by the assignment from \<open>aes.NewCipher\<close>, which stores nil
  when the key is refused; \<open>maxlifetime\<close> last, only on success.
\<close>

definition CookieProvider_SessionInit ::
  "(byte list \<Rightarrow> cookieConfig \<Rightarrow> cookieConfig \<times> error option)
    \<Rightarrow> (nat \<Rightarrow> 'r \<Rightarrow> byte list \<times> 'r)
    \<Rightarrow> CookieProvider \<Rightarrow> 'r \<Rightarrow> int \<Rightarrow> string
    \<Rightarrow> (CookieProvider \<times> 'r) \<times> error option" where
  "CookieProvider_SessionInit json_Unmarshal generateRandomKey pder rng maxlifetime' config' =
     (case json_Unmarshal (bytes_of_string config') cookieConfig_zero of
        (cfg, Some err) \<Rightarrow> ((pder\<lparr>config := Some cfg\<rparr>, rng), Some err)
      | (cfg, None) \<Rightarrow>
          (let (cfg1, rng1) =
                 (if BlockKey cfg = []
                  then (let (k, r) = generateRandomKey 16 rng
                        in (cfg\<lparr>BlockKey := string_of_bytes k\<rparr>, r))
                  else (cfg, rng));
               (cfg2, rng2) =
                 (if SecurityName cfg1 = []
                  then (let (k, r) = generateRandomKey 20 rng1
                        in (cfg1\<lparr>SecurityName := string_of_bytes k\<rparr>, r))
                  else (cfg1, rng1))
           in (case aes_NewCipher (bytes_of_string (BlockKey cfg2)) of
                 Inl err \<Rightarrow> ((pder\<lparr>config := Some cfg2, block := None\<rparr>, rng2), Some err)
               | Inr b \<Rightarrow>
                   ((pder\<lparr>config := Some cfg2, block := Some b,
                           maxlifetime := maxlifetime'\<rparr>, rng2), None))))"

text \<open>Successive calls of \<open>SessionInit\<close> on the package's provider, each with its
  arguments; the errors they returned are collected in order.\<close>

fun SessionInit_calls ::
  "(byte list \<Rightarrow> cookieConfig \<Rightarrow> cookieConfig \<times> error option)
    \<Rightarrow> (nat \<Rightarrow> 'r \<Rightarrow> byte list \<times> 'r)
    \<Rightarrow> CookieProvider \<times> 'r \<Rightarrow> (int \<times> string) list
    \<Rightarrow> (CookieProvider \<times> 'r) \<times> error option list" where
  "SessionInit_calls J G s [] = (s, [])"
| "SessionInit_calls J G s (c # cs) =
     (let (s', e) = CookieProvider_SessionInit J G (fst s) (snd s) (fst c) (snd c);
          (s'', es) = SessionInit_calls J G s' cs
      in (s'', e # es))"

text \<open>The \<open>maxlifetime\<close> argument of the last call that returned a nil error, if any
  call did.\<close>

definition last_successful :: "(int \<times> string) list \<Rightarrow> error option list \<Rightarrow> int option" where
  "last_successful calls errs =
     (case filter (\<lambda>ce. snd ce = None) (zip calls errs) of
        [] \<Rightarrow> None
      | x # xs \<Rightarrow> Some (fst (fst (last (x # xs)))))"

subsection \<open>SessionRead\<close>

text \<open>
  \<open>decodeCookie\<close> is a parameter: a function of the cipher, the security key, the
  security name, the cookie string and the maximum age that returns a map (nil or
  not) and an error (nil or not). \<open>pder.config.SecurityKey\<close> dereferences the
  configuration pointer, which is nil until \<open>SessionInit\<close> has run.
\<close>

definition CookieProvider_SessionRead ::
  "(cipher_Block option \<Rightarrow> string \<Rightarrow> string \<Rightarrow> string \<Rightarrow> int
      \<Rightarrow> ('k, 'v) gomap option \<times> error option)
    \<Rightarrow> CookieProvider \<Rightarrow> string
    \<Rightarrow> panic + (('k, 'v) CookieSessionStore option \<times> error option)" where
  "CookieProvider_SessionRead decodeCookie pder sid' =
     (case config pder of
        None \<Rightarrow> Inl nil_pointer_dereference
      | Some cfg \<Rightarrow>
          (let (maps, _) = decodeCookie (block pder) (SecurityKey cfg) (SecurityName cfg)
                             sid' (maxlifetime pder);
               maps' = (case maps of None \<Rightarrow> Some Map.empty | Some m \<Rightarrow> Some m)
           in Inr (Some \<lparr>sid = sid', values = maps'\<rparr>, None)))"

subsection \<open>SessionRelease\<close>

text \<open>The fields of \<open>http.Cookie\<close> that \<open>SessionRelease\<close> sets; the others keep their
  zero values.\<close>

record Cookie =
  Name :: string
  Value :: string
  Path :: string
  HttpOnly :: bool
  Secure :: bool
  MaxAge :: int

text \<open>The response, as far as this file writes to it: the cookies handed to
  \<open>http.SetCookie\<close>, in order. How the standard library renders a cookie into a
  \<open>Set-Cookie\<close> header line is not represented.\<close>

record ResponseWriter =
  SetCookie_calls :: "Cookie list"

definition http_SetCookie :: "ResponseWriter \<Rightarrow> Cookie \<Rightarrow> ResponseWriter" where
  "http_SetCookie w cookie = w\<lparr>SetCookie_calls := SetCookie_calls w @ [cookie]\<rparr>"

text \<open>\<open>url.QueryEscape\<close>: letters, digits and \<open>-_.~\<close> stay, a space becomes \<open>+\<close>, every
  other byte becomes \<open>%\<close> and two upper-case hexadecimal digits. \<open>upperhex\<close> is only
  ever asked for a digit below 16, a half of a byte.\<close>

definition shouldEscape :: "char \<Rightarrow> bool" where
  "shouldEscape c =
     (let n = (of_char c :: nat)
      in \<not> ((97 \<le> n \<and> n \<le> 122) \<or> (65 \<le> n \<and> n \<le> 90) \<or> (48 \<le> n \<and> n \<le> 57)
             \<or> c = CHR ''-'' \<or> c = CHR ''_'' \<or> c = CHR ''.'' \<or> c = CHR ''~''))"

definition upperhex :: "nat \<Rightarrow> char" where
  "upperhex n = ''0123456789ABCDEF'' ! n"

definition url_QueryEscape :: "string \<Rightarrow> string" where
  "url_QueryEscape s =
     concat (map (\<lambda>c. if c = CHR '' '' then ''+''
                       else if shouldEscape c
                       then [CHR ''%'', upperhex (of_char c div 16), upperhex (of_char c mod 16)]
                       else [c]) s)"

text \<open>
  \<open>encodeCookie\<close> is a parameter: a function of the cipher, the security key, the
  security name and the map that returns a string and an error (nil or not).
  \<open>cookiepder\<close> is the package variable, read here whatever provider made the store;
  its current value is the second argument.
\<close>

definition CookieSessionStore_SessionRelease ::
  "(cipher_Block option \<Rightarrow> string \<Rightarrow> string \<Rightarrow> ('k, 'v) gomap option
      \<Rightarrow> string \<times> error option)
    \<Rightarrow> CookieProvider \<Rightarrow> ('k, 'v) CookieSessionStore \<Rightarrow> ResponseWriter
    \<Rightarrow> panic + ResponseWriter" where
  "CookieSessionStore_SessionRelease encodeCookie cookiepder st w =
     (case config cookiepder of
        None \<Rightarrow> Inl nil_pointer_dereference
      | Some cfg \<Rightarrow>
          (case encodeCookie (block cookiepder) (SecurityKey cfg) (SecurityName cfg)
                  (values st) of
             (str, Some err) \<Rightarrow> Inr w
           | (str, None) \<Rightarrow>
               Inr (http_SetCookie w
                      \<lparr>Name = CookieName cfg, Value = url_QueryEscape str, Path = ''/'',
                       HttpOnly = True, Secure = cookieConfig.Secure cfg,
                       MaxAge = Maxage cfg\<rparr>)))"

subsection \<open>The secure cookie codec\<close>

text \<open>
  \<open>encodeCookie\<close> and \<open>decodeCookie\<close> are functions of this package that are not in
  \<open>sess_cookie.go\<close>. The two definitions below follow the specification's section on
  the codec, step by step. What the specification leaves to libraries is a field of
  \<open>codec\<close>: the serialisation of a map, the cipher mode (which puts the initialisation
  vector in front of the ciphertext), the keyed authentication tag over the encrypted
  payload, the security name and the timestamp, and the URL-safe string form of the
  concatenation of timestamp, tag and ciphertext. The clock and the fresh
  initialisation vector are arguments.
\<close>

record ('k, 'v) codec =
  serialize :: "('k, 'v) gomap \<Rightarrow> error + byte list"
  deserialize :: "byte list \<Rightarrow> error + ('k, 'v) gomap"
  encrypt :: "cipher_Block option \<Rightarrow> byte list \<Rightarrow> byte list \<Rightarrow> error + byte list"
  decrypt :: "cipher_Block option \<Rightarrow> byte list \<Rightarrow> error + byte list"
  auth_tag :: "string \<Rightarrow> byte list \<Rightarrow> string \<Rightarrow> int \<Rightarrow> byte list"
  to_urlsafe :: "int \<times> byte list \<times> byte list \<Rightarrow> string"
  from_urlsafe :: "string \<Rightarrow> (int \<times> byte list \<times> byte list) option"

text \<open>
  Modelled from the spec: \<open>encodeCookie\<close>, missing from the sources. Serialise the
  values; encrypt the bytes; compute the tag over the encrypted payload, the security
  name and the current timestamp with the security key; put timestamp, tag and
  ciphertext together and encode them as a URL-safe string. A serialisation or cipher
  failure is returned as the error.
\<close>

definition spec_encodeCookie ::
  "('k, 'v) codec \<Rightarrow> int \<Rightarrow> byte list
    \<Rightarrow> cipher_Block option \<Rightarrow> string \<Rightarrow> string \<Rightarrow> ('k, 'v) gomap option
    \<Rightarrow> string \<times> error option" where
  "spec_encodeCookie P now iv blk securityKey securityName vs =
     (case serialize P (entries vs) of
        Inl e \<Rightarrow> ([], Some e)
      | Inr b \<Rightarrow>
          (case encrypt P blk iv b of
             Inl e \<Rightarrow> ([], Some e)
           | Inr c \<Rightarrow>
               (to_urlsafe P (now, auth_tag P securityKey c securityName now, c), None)))"

text \<open>
  Modelled from the spec: \<open>decodeCookie\<close>, missing from the sources. Undo the string
  form; derive the tag again from the received timestamp, the security name and the
  ciphertext and compare it with the received one; then check
  \<open>now - timestamp \<le> maxAgeSeconds\<close>; only then decrypt and deserialise. Every
  failure gives the nil map and an error.
\<close>

definition spec_decodeCookie ::
  "('k, 'v) codec \<Rightarrow> int
    \<Rightarrow> cipher_Block option \<Rightarrow> string \<Rightarrow> string \<Rightarrow> string \<Rightarrow> int
    \<Rightarrow> ('k, 'v) gomap option \<times> error option" where
  "spec_decodeCookie P now blk securityKey securityName cookieString maxAgeSeconds =
     (case from_urlsafe P cookieString of
        None \<Rightarrow> (None, Some (other_error ''invalid value''))
      | Some (timestamp, tag, c) \<Rightarrow>
          if auth_tag P securityKey c securityName timestamp \<noteq> tag
          then (None, Some (other_error ''the value is not valid''))
          else if \<not> now - timestamp \<le> maxAgeSeconds
          then (None, Some (other_error ''expired timestamp''))
          else (case decrypt P blk c of
                  Inl e \<Rightarrow> (None, Some e)
                | Inr b \<Rightarrow>
                    (case deserialize P b of
                       Inl e \<Rightarrow> (None, Some e)
                     | Inr m \<Rightarrow> (Some m, None))))"


definition expired :: "('k, 'v) codec \<Rightarrow> int \<Rightarrow> string \<Rightarrow> int \<Rightarrow> bool" where
  "expired P now cookieString maxAgeSeconds =
     (case from_urlsafe P cookieString of
        None \<Rightarrow> False
      | Some (timestamp, tag, c) \<Rightarrow> maxAgeSeconds < now - timestamp)"

text \<open>What the round trip needs of the library parts: each decoding step undoes its
  encoding step.\<close>

definition lossless :: "('k, 'v) codec \<Rightarrow> bool" where
  "lossless P =
     ((\<forall>m b. serialize P m = Inr b \<longrightarrow> deserialize P b = Inr m) \<and>
      (\<forall>blk iv b c. encrypt P blk iv b = Inr c \<longrightarrow> decrypt P blk c = Inr b) \<and>
      (\<forall>x. from_urlsafe P (to_urlsafe P x) = Some x))"

subsection \<open>An instance of the parameters\<close>

text \<open>
  The theorems below hold for every parser, entropy source and codec library. To
  show that what they assume of these can be met, and to run the functions on
  concrete requests, here is one small instance of each: a parser that knows three
  payloads (the empty object, an object with a block key of five bytes, and the
  configuration of the specification's end-to-end scenario), an entropy source that
  counts, and a codec over string keys and values with a one-byte checksum for a tag,
  an additive pad for a cipher, and a string form that writes the timestamp in unary
  and the bytes in hexadecimal. None of it is meant to be secure.
\<close>

definition quoted :: "string \<Rightarrow> string" where
  "quoted s = CHR 0x22 # s @ [CHR 0x22]"

definition demo_config_json :: string where
  "demo_config_json =
     ''{'' @ quoted ''securityKey'' @ '':'' @ quoted ''k1'' @ '','' @
     quoted ''blockKey'' @ '':'' @ quoted ''0123456789abcdef'' @ '','' @
     quoted ''securityName'' @ '':'' @ quoted ''s'' @ '','' @
     quoted ''cookieName'' @ '':'' @ quoted ''sess'' @ '','' @
     quoted ''secure'' @ '':false,'' @ quoted ''maxage'' @ '':60}''"

definition demo_short_key_json :: string where
  "demo_short_key_json = ''{'' @ quoted ''blockKey'' @ '':'' @ quoted ''short'' @ ''}''"

definition demo_json_Unmarshal ::
  "byte list \<Rightarrow> cookieConfig \<Rightarrow> cookieConfig \<times> error option" where
  "demo_json_Unmarshal b c =
     (if b = bytes_of_string ''{}'' then (c, None)
      else if b = bytes_of_string demo_short_key_json then (c\<lparr>BlockKey := ''short''\<rparr>, None)
      else if b = bytes_of_string demo_config_json
      then (\<lparr>SecurityKey = ''k1'', BlockKey = ''0123456789abcdef'', SecurityName = ''s'',
             CookieName = ''sess'', Secure = False, Maxage = 60\<rparr>, None)
      else (c, Some (other_error ''invalid character'')))"

definition demo_generateRandomKey :: "nat \<Rightarrow> nat \<Rightarrow> byte list \<times> nat" where
  "demo_generateRandomKey strength seed =
     (map (\<lambda>i. of_nat (seed + i)) [0..<strength], Suc seed)"

definition demo_values :: "(string, string) gomap" where
  "demo_values = [Val ''uid'' \<mapsto> Val ''42'']"

definition demo_serialize :: "(string, string) gomap \<Rightarrow> error + byte list" where
  "demo_serialize m =
     (if m = Map.empty then Inr [0]
      else if m = demo_values then Inr [1]
      else Inl (other_error ''type not registered''))"

definition demo_deserialize :: "byte list \<Rightarrow> error + (string, string) gomap" where
  "demo_deserialize b =
     (if b = [0] then Inr Map.empty
      else if b = [1] then Inr demo_values
      else Inl (other_error ''unexpected EOF''))"

definition demo_pad :: "cipher_Block option \<Rightarrow> byte list \<Rightarrow> byte" where
  "demo_pad blk iv =
     (case blk of None \<Rightarrow> 0 | Some (aesCipher key) \<Rightarrow> sum_list key + sum_list iv)"

definition demo_encrypt ::
  "cipher_Block option \<Rightarrow> byte list \<Rightarrow> byte list \<Rightarrow> error + byte list" where
  "demo_encrypt blk iv b =
     (if blk = None \<or> length iv \<noteq> 16
      then Inl (other_error ''IV length must equal block size'')
      else Inr (iv @ map (\<lambda>x. x + demo_pad blk iv) b))"

definition demo_decrypt :: "cipher_Block option \<Rightarrow> byte list \<Rightarrow> error + byte list" where
  "demo_decrypt blk c =
     (if blk = None \<or> length c < 16 then Inl (other_error ''ciphertext too short'')
      else Inr (map (\<lambda>x. x - demo_pad blk (take 16 c)) (drop 16 c)))"

definition demo_auth_tag :: "string \<Rightarrow> byte list \<Rightarrow> string \<Rightarrow> int \<Rightarrow> byte list" where
  "demo_auth_tag securityKey c securityName timestamp =
     [sum_list (bytes_of_string securityKey) * 3 + sum_list c * 5
        + sum_list (bytes_of_string securityName) * 7 + of_int timestamp]"

definition hexval :: "char \<Rightarrow> nat option" where
  "hexval c =
     (let n = (of_char c :: nat)
      in if 48 \<le> n \<and> n \<le> 57 then Some (n - 48)
         else if 65 \<le> n \<and> n \<le> 70 then Some (n - 55)
         else None)"

definition hex_of_bytes :: "byte list \<Rightarrow> string" where
  "hex_of_bytes b =
     concat (map (\<lambda>w. [upperhex (unat w div 16), upperhex (unat w mod 16)]) b)"

fun bytes_of_hex :: "string \<Rightarrow> byte list option" where
  "bytes_of_hex [] = Some []"
| "bytes_of_hex [a] = None"
| "bytes_of_hex (a # b # r) =
     (case (hexval a, hexval b, bytes_of_hex r) of
        (Some x, Some y, Some bs) \<Rightarrow> Some (of_nat (16 * x + y) # bs)
      | _ \<Rightarrow> None)"

definition demo_to_urlsafe :: "int \<times> byte list \<times> byte list \<Rightarrow> string" where
  "demo_to_urlsafe x =
     (case x of (t, tag, c) \<Rightarrow>
        (if t < 0 then ''-'' else []) @ replicate (nat \<bar>t\<bar>) CHR ''i'' @ ''.'' @
        hex_of_bytes tag @ ''.'' @ hex_of_bytes c)"

definition demo_from_urlsafe :: "string \<Rightarrow> (int \<times> byte list \<times> byte list) option" where
  "demo_from_urlsafe s =
     (let neg = (s \<noteq> [] \<and> hd s = CHR ''-'');
          r = (if neg then tl s else s);
          n = length (takeWhile (\<lambda>c. c = CHR ''i'') r);
          r1 = dropWhile (\<lambda>c. c = CHR ''i'') r;
          h1 = takeWhile (\<lambda>c. c \<noteq> CHR ''.'') (tl r1);
          r2 = dropWhile (\<lambda>c. c \<noteq> CHR ''.'') (tl r1)
      in if r1 = [] \<or> hd r1 \<noteq> CHR ''.'' \<or> r2 = [] then None
         else (case (bytes_of_hex h1, bytes_of_hex (tl r2)) of
                 (Some tag, Some c) \<Rightarrow> Some (if neg then - int n else int n, tag, c)
               | _ \<Rightarrow> None))"

definition demo_codec :: "(string, string) codec" where
  "demo_codec =
     \<lparr>serialize = demo_serialize, deserialize = demo_deserialize,
      encrypt = demo_encrypt, decrypt = demo_decrypt, auth_tag = demo_auth_tag,
      to_urlsafe = demo_to_urlsafe, from_urlsafe = demo_from_urlsafe\<rparr>"

text \<open>The provider after \<open>SessionInit(3600, demo_config_json)\<close>, and a store as
  \<open>SessionRead\<close> makes it.\<close>

definition demo_provider :: CookieProvider where
  "demo_provider =
     \<lparr>maxlifetime = 3600,
      config = Some \<lparr>SecurityKey = ''k1'', BlockKey = ''0123456789abcdef'',
                      SecurityName = ''s'', CookieName = ''sess'', Secure = False,
                      Maxage = 60\<rparr>,
      block = Some (aesCipher (bytes_of_string ''0123456789abcdef''))\<rparr>"

definition demo_store :: "(string, string) CookieSessionStore" where
  "demo_store = \<lparr>sid = ''abc'', values = Some Map.empty\<rparr>"

text \<open>The cookie string this codec makes of \<open>demo_values\<close> at time 3 with an
  initialisation vector of sixteen bytes 9, under the keys of \<open>demo_provider\<close>; and the
  same string with its last character changed.\<close>

definition demo_iv :: "byte list" where
  "demo_iv = [9, 9, 9, 9, 9, 9, 9, 9, 9, 9, 9, 9, 9, 9, 9, 9]"

definition demo_cookie :: string where
  "demo_cookie = ''iii.8B.09090909090909090909090909090909F3''"


text \<open>A decoder that accepts everything and reports the maximum age it was called
  with as an entry of the map it returns.\<close>

definition maxage_probe ::
  "cipher_Block option \<Rightarrow> string \<Rightarrow> string \<Rightarrow> string \<Rightarrow> int
    \<Rightarrow> (string, int) gomap option \<times> error option" where
  "maxage_probe blk securityKey securityName cookieString maxAgeSeconds =
     (Some [Val ''maxAgeSeconds'' \<mapsto> Val maxAgeSeconds], None)"

section \<open>Properties\<close>

subsection \<open>Bytes and strings\<close>

lemma length_bytes_of_string [simp]: "length (bytes_of_string s) = length s"
  by (simp add: bytes_of_string_def)

lemma length_string_of_bytes [simp]: "length (string_of_bytes b) = length b"
  by (simp add: string_of_bytes_def)

text \<open>Random bytes survive the conversion to a string and back, as they do in Go.\<close>

lemma bytes_of_string_of_bytes: "bytes_of_string (string_of_bytes b) = b"
proof -
  have "(of_char (char_of (unat w)) :: byte) = w" for w :: byte
  proof -
    have "(of_char (char_of (unat w)) :: byte) = of_nat (of_char (char_of (unat w)))"
      by (simp only: of_nat_of_char)
    also have "\<dots> = of_nat (unat w mod 256)" by simp
    also have "\<dots> = w"
      using unsigned_less [where 'a = nat and w = w] by simp
    finally show ?thesis .
  qed
  then show ?thesis
    by (simp add: bytes_of_string_def string_of_bytes_def map_idI)
qed

lemma aes_NewCipher_Inr:
  "aes_NewCipher key = Inr b \<longleftrightarrow> b = aesCipher key \<and> length key \<in> {16, 24, 32}"
  by (auto simp: aes_NewCipher_def Let_def)

lemma aes_NewCipher_Inl:
  "aes_NewCipher key = Inl e \<longleftrightarrow>
     e = aes_KeySizeError (int (length key)) \<and> length key \<notin> {16, 24, 32}"
  by (auto simp: aes_NewCipher_def Let_def)

subsection \<open>The instance of the parameters\<close>

lemma hexval_upperhex: "n < 16 \<Longrightarrow> hexval (upperhex n) = Some n"
proof -
  assume "n < 16"
  then have "n \<in> set [0..<16]" by simp
  then show ?thesis
    by (auto simp: upt_rec hexval_def upperhex_def)
qed

lemma upperhex_not_dot: "n < 16 \<Longrightarrow> upperhex n \<noteq> CHR ''.''"
  using hexval_upperhex [of n] by (auto simp: hexval_def)

lemma byte_nibbles: "unat (w :: byte) div 16 < 16"
proof -
  have "unat w < 256" using unsigned_less [where 'a = nat and w = w] by simp
  then show ?thesis by simp
qed

lemma bytes_of_hex_of_bytes: "bytes_of_hex (hex_of_bytes b) = Some b"
proof (induction b)
  case Nil
  then show ?case by (simp add: hex_of_bytes_def)
next
  case (Cons w b)
  have "16 * (unat w div 16) + unat w mod 16 = unat w" by simp
  then have "(of_nat (16 * (unat w div 16) + unat w mod 16) :: byte) = w" by simp
  then show ?case using Cons byte_nibbles [of w]
    by (simp add: hex_of_bytes_def hexval_upperhex)
qed

lemma hex_of_bytes_no_dot: "c \<in> set (hex_of_bytes b) \<Longrightarrow> c \<noteq> CHR ''.''"
proof (induction b)
  case Nil
  then show ?case by (simp add: hex_of_bytes_def)
next
  case (Cons w b)
  then show ?case
    using byte_nibbles [of w] upperhex_not_dot [of "unat w div 16"]
      upperhex_not_dot [of "unat w mod 16"]
    by (auto simp: hex_of_bytes_def)
qed

lemma demo_urlsafe_inverse: "demo_from_urlsafe (demo_to_urlsafe x) = Some x"
proof -
  obtain t tag c where x: "x = (t, tag, c)" by (cases x)
  let ?n = "nat \<bar>t\<bar>"
  let ?rest = "''.'' @ hex_of_bytes tag @ ''.'' @ hex_of_bytes c"
  have tw: "takeWhile (\<lambda>c. c = CHR ''i'') (replicate ?n CHR ''i'' @ ?rest)
      = replicate ?n CHR ''i''"
    by (subst takeWhile_append2) auto
  have dw: "dropWhile (\<lambda>c. c = CHR ''i'') (replicate ?n CHR ''i'' @ ?rest) = ?rest"
    by (subst dropWhile_append2) auto
  have tw2: "takeWhile (\<lambda>c. c \<noteq> CHR ''.'') (hex_of_bytes tag @ ''.'' @ hex_of_bytes c)
      = hex_of_bytes tag"
    using hex_of_bytes_no_dot by (simp add: takeWhile_append2)
  have dw2: "dropWhile (\<lambda>c. c \<noteq> CHR ''.'') (hex_of_bytes tag @ ''.'' @ hex_of_bytes c)
      = ''.'' @ hex_of_bytes c"
    using hex_of_bytes_no_dot by (simp add: dropWhile_append2)
  show ?thesis
  proof (cases "t < 0")
    case True
    then show ?thesis unfolding x demo_to_urlsafe_def demo_from_urlsafe_def
      using tw dw tw2 dw2 by (simp add: bytes_of_hex_of_bytes Let_def)
  next
    case False
    have nh: "replicate ?n CHR ''i'' @ ?rest \<noteq> [] \<and>
        hd (replicate ?n CHR ''i'' @ ?rest) \<noteq> CHR ''-''"
      by (cases ?n) auto
    from False show ?thesis unfolding x demo_to_urlsafe_def demo_from_urlsafe_def
      using tw dw tw2 dw2 nh by (simp add: bytes_of_hex_of_bytes Let_def)
  qed
qed

lemma lossless_demo_codec: "lossless demo_codec"
  unfolding lossless_def demo_codec_def
  by (auto simp: demo_serialize_def demo_deserialize_def demo_values_def demo_encrypt_def
      demo_decrypt_def demo_urlsafe_inverse comp_def split: if_splits)

lemma demo_cookie_form: "demo_cookie = demo_to_urlsafe (3, [0x8B], demo_iv @ [0xF3])"
  by code_simp





lemma demo_encrypted:
  "demo_encrypt (block demo_provider) demo_iv [1] = Inr (demo_iv @ [0xF3])"
  by code_simp

lemma demo_tag: "demo_auth_tag ''k1'' (demo_iv @ [0xF3]) ''s'' 3 = [0x8B]"
  by code_simp

lemma demo_cookie_encoded:
  "spec_encodeCookie demo_codec 3 demo_iv (block demo_provider) ''k1'' ''s''
     (Some demo_values) = (demo_cookie, None)"
  by (simp add: spec_encodeCookie_def demo_codec_def entries_def demo_serialize_def
      demo_values_def demo_encrypted demo_tag demo_cookie_form)


lemma demo_provider_config:
  "config demo_provider =
     Some \<lparr>SecurityKey = ''k1'', BlockKey = ''0123456789abcdef'', SecurityName = ''s'',
           CookieName = ''sess'', Secure = False, Maxage = 60\<rparr>"
  by (simp add: demo_provider_def)

lemma demo_provider_init:
  "CookieProvider_SessionInit demo_json_Unmarshal demo_generateRandomKey cookiepder_zero
     (7 :: nat) 3600 demo_config_json = ((demo_provider, 7), None)"
  by code_simp


subsection \<open>The store\<close>

text \<open>Every store that \<open>SessionRead\<close> returns has an allocated map, and \<open>Set\<close>,
  \<open>Delete\<close> and \<open>Flush\<close> keep it allocated: the zero value of the struct, whose map
  is nil, is never made by this package.\<close>

lemma SessionRead_allocates:
  "CookieProvider_SessionRead dec pder s = Inr (Some st, e) \<Longrightarrow> values st \<noteq> None"
  by (auto simp: CookieProvider_SessionRead_def Let_def split: option.splits prod.splits)

lemma Set_keeps_allocated:
  "CookieSessionStore_Set st k v = Inr (st', e) \<Longrightarrow> values st' \<noteq> None"
  by (auto simp: CookieSessionStore_Set_def split: option.splits)

lemma Delete_keeps_allocated:
  "values st \<noteq> None \<Longrightarrow> values (fst (CookieSessionStore_Delete st k)) \<noteq> None"
  by (auto simp: CookieSessionStore_Delete_def split: option.splits)

lemma Flush_allocates: "values (fst (CookieSessionStore_Flush st)) \<noteq> None"
  by (simp add: CookieSessionStore_Flush_def)






text \<open>
  C10. The "not found" answer of \<open>Get\<close> is nil, a value a caller may store. On every
  store, once \<open>Set(k, nil)\<close> has returned, \<open>k\<close> is bound to nil and \<open>Get(k)\<close> returns nil:
  exactly what \<open>Get(k)\<close> returns on any store in which \<open>k\<close> is not bound, so \<open>Get\<close>
  cannot tell the two apart. And \<open>Set(k, nil)\<close> does return, with a nil error, on
  every store whose map is allocated.
\<close>

theorem nil_value_reads_as_absent:
  "(\<forall>st' e. CookieSessionStore_Set st k nil = Inr (st', e) \<longrightarrow>
      e = None \<and>
      entries (values st') k = Some nil \<and>
      CookieSessionStore_Get st' k = nil \<and>
      (\<forall>st2 :: ('a, 'b) CookieSessionStore.
         entries (values st2) k = None \<longrightarrow>
         CookieSessionStore_Get st2 k = CookieSessionStore_Get st' k)) \<and>
   (values st \<noteq> None \<longrightarrow> (\<exists>st'. CookieSessionStore_Set st k nil = Inr (st', None)))"
  by (auto simp: CookieSessionStore_Set_def CookieSessionStore_Get_def entries_def
      split: option.splits)

text \<open>\<open>Set("uid", nil)\<close> on the empty store: the key is bound, and reads as before.\<close>

theorem nil_value_reads_as_absent_witness:
  "values demo_store \<noteq> None \<and>
   CookieSessionStore_Set demo_store (Val ''uid'') nil
     = Inr (\<lparr>sid = ''abc'', values = Some [Val ''uid'' \<mapsto> nil]\<rparr>, None) \<and>
   entries (values \<lparr>sid = ''abc'', values = Some [Val ''uid'' \<mapsto> (nil :: string iface)]\<rparr>)
     (Val ''uid'') = Some nil \<and>
   CookieSessionStore_Get \<lparr>sid = ''abc'', values = Some [Val ''uid'' \<mapsto> (nil :: string iface)]\<rparr>
     (Val ''uid'') = nil \<and>
   entries (values demo_store) (Val ''uid'') = None \<and>
   CookieSessionStore_Get demo_store (Val ''uid'') = nil"
proof -
  have set: "CookieSessionStore_Set demo_store (Val ''uid'') nil
      = Inr (\<lparr>sid = ''abc'', values = Some [Val ''uid'' \<mapsto> nil]\<rparr>, None)"
    by (simp add: CookieSessionStore_Set_def demo_store_def)
  have absent: "entries (values demo_store) (Val ''uid'') = None"
    by (simp add: demo_store_def entries_def)
  show ?thesis
    using nil_value_reads_as_absent [of demo_store "Val ''uid''"] set absent
    by (auto simp: demo_store_def)
qed

subsection \<open>The provider\<close>

text \<open>
  C7. The methods that have nothing to do for a backend without server-side state.
  Whatever the identifier, \<open>SessionExist\<close> is true, \<open>SessionAll\<close> is 0,
  \<open>SessionDestroy\<close> and \<open>SessionUpdate\<close> return the nil error, and \<open>SessionRegenerate\<close>
  returns the nil error and the nil store.
\<close>

theorem noop_capability_contract:
  "CookieProvider_SessionExist pder s = True \<and>
   CookieProvider_SessionAll pder = 0 \<and>
   CookieProvider_SessionDestroy pder s = None \<and>
   CookieProvider_SessionUpdate pder s = None \<and>
   CookieProvider_SessionRegenerate pder oldsid s = (None, None)"
  by (simp add: CookieProvider_SessionExist_def CookieProvider_SessionAll_def
      CookieProvider_SessionDestroy_def CookieProvider_SessionUpdate_def
      CookieProvider_SessionRegenerate_def)

subsection \<open>SessionInit\<close>

text \<open>
  C5. \<open>SessionInit\<close>, for every maximum lifetime and payload. After the call the
  provider has a configuration. If the parser reports an error (as it does for a
  payload that is not valid JSON), \<open>SessionInit\<close> returns that error. If it does not,
  \<open>SessionInit\<close> returns the \<open>KeySizeError\<close> of \<open>aes.NewCipher\<close> when the cipher refuses
  the resulting block key, and nil when it accepts it. On success: when the payload
  gave no block key, the key is the 16 bytes asked of \<open>generateRandomKey\<close>, otherwise
  the payload's; when the payload gave no security name, the name is the 20 bytes
  asked of \<open>generateRandomKey\<close> next, otherwise the payload's; the key has a length
  AES accepts; the provider's cipher is the AES cipher of that key (of the generated
  bytes themselves, when they were generated); and the maximum lifetime is stored. An empty block key never fails the call when
  \<open>generateRandomKey\<close> returns as many bytes as it is asked for.
\<close>

theorem SessionInit_contract:
  assumes run: "CookieProvider_SessionInit J G pder rng ml js = ((pder', rng'), err)"
    and parse: "J (bytes_of_string js) cookieConfig_zero = (c0, jerr)"
  shows "\<exists>cfg'. config pder' = Some cfg' \<and>
           (jerr \<noteq> None \<longrightarrow> err = jerr) \<and>
           (jerr = None \<longrightarrow>
              BlockKey cfg' =
                (if BlockKey c0 = [] then string_of_bytes (fst (G 16 rng)) else BlockKey c0) \<and>
              SecurityName cfg' =
                (if SecurityName c0 = []
                 then string_of_bytes
                        (fst (G 20 (if BlockKey c0 = [] then snd (G 16 rng) else rng)))
                 else SecurityName c0) \<and>
              (\<forall>e. aes_NewCipher (bytes_of_string (BlockKey cfg')) = Inl e \<longrightarrow> err = Some e) \<and>
              (\<forall>b. aes_NewCipher (bytes_of_string (BlockKey cfg')) = Inr b \<longrightarrow> err = None)) \<and>
           (err = None \<longrightarrow>
              jerr = None \<and>
              length (BlockKey cfg') \<in> {16, 24, 32} \<and>
              block pder' = Some (aesCipher (bytes_of_string (BlockKey cfg'))) \<and>
              (BlockKey c0 = [] \<longrightarrow> block pder' = Some (aesCipher (fst (G 16 rng)))) \<and>
              maxlifetime pder' = ml) \<and>
           (jerr = None \<and> BlockKey c0 = [] \<and> length (fst (G 16 rng)) = 16 \<longrightarrow> err = None)"
proof (cases jerr)
  case (Some e)
  with run parse show ?thesis
    by (auto simp: CookieProvider_SessionInit_def)
next
  case None
  obtain k1 r1 where g1: "G 16 rng = (k1, r1)" by (cases "G 16 rng")
  obtain k2 r2 where g2: "G 20 (if BlockKey c0 = [] then r1 else rng) = (k2, r2)"
    by (cases "G 20 (if BlockKey c0 = [] then r1 else rng)")
  from run parse None g1 g2 show ?thesis
    by (auto simp: CookieProvider_SessionInit_def Let_def aes_NewCipher_Inr aes_NewCipher_Inl
        bytes_of_string_of_bytes split: if_splits sum.splits)
qed

text \<open>Three calls on the package's provider: the empty object (both keys are
  generated), a payload that is not JSON, and a block key of five bytes.\<close>

theorem SessionInit_contract_witness:
  "(\<exists>pder' rng' cfg'.
      CookieProvider_SessionInit demo_json_Unmarshal demo_generateRandomKey cookiepder_zero
        (7 :: nat) 3600 ''{}'' = ((pder', rng'), None) \<and>
      config pder' = Some cfg' \<and>
      BlockKey cfg' = string_of_bytes (fst (demo_generateRandomKey 16 7)) \<and>
      SecurityName cfg' = string_of_bytes (fst (demo_generateRandomKey 20 8)) \<and>
      length (BlockKey cfg') = 16 \<and>
      block pder' = Some (aesCipher (fst (demo_generateRandomKey 16 7))) \<and>
      maxlifetime pder' = 3600) \<and>
   snd (CookieProvider_SessionInit demo_json_Unmarshal demo_generateRandomKey cookiepder_zero
          (7 :: nat) 3600 ''{'') = Some (other_error ''invalid character'') \<and>
   snd (CookieProvider_SessionInit demo_json_Unmarshal demo_generateRandomKey cookiepder_zero
          (7 :: nat) 3600 demo_short_key_json) = Some (aes_KeySizeError 5)"
proof -
  let ?init = "CookieProvider_SessionInit demo_json_Unmarshal demo_generateRandomKey
                 cookiepder_zero (7 :: nat) 3600"
  have parse1: "demo_json_Unmarshal (bytes_of_string ''{}'') cookieConfig_zero
      = (cookieConfig_zero, None)"
    by (simp add: demo_json_Unmarshal_def)
  obtain p1 r1 e1 where run1: "?init ''{}'' = ((p1, r1), e1)"
    by (metis surj_pair)
  have gen: "length (fst (demo_generateRandomKey 16 7)) = 16"
    "snd (demo_generateRandomKey 16 7) = 8"
    by (simp_all add: demo_generateRandomKey_def)
  have zero: "BlockKey cookieConfig_zero = []" "SecurityName cookieConfig_zero = []"
    by (simp_all add: cookieConfig_zero_def)
  from SessionInit_contract [OF run1 parse1] gen zero have e1: "e1 = None"
    by auto
  from SessionInit_contract [OF run1 parse1] gen zero e1 have first:
    "\<exists>cfg'. config p1 = Some cfg' \<and>
       BlockKey cfg' = string_of_bytes (fst (demo_generateRandomKey 16 7)) \<and>
       SecurityName cfg' = string_of_bytes (fst (demo_generateRandomKey 20 8)) \<and>
       length (BlockKey cfg') = 16 \<and>
       block p1 = Some (aesCipher (fst (demo_generateRandomKey 16 7))) \<and>
       maxlifetime p1 = 3600"
    by auto
  have parse2: "demo_json_Unmarshal (bytes_of_string ''{'') cookieConfig_zero
      = (cookieConfig_zero, Some (other_error ''invalid character''))"
    by code_simp
  obtain p2 r2 e2 where run2: "?init ''{'' = ((p2, r2), e2)"
    by (metis surj_pair)
  from SessionInit_contract [OF run2 parse2] have e2:
    "e2 = Some (other_error ''invalid character'')"
    by auto
  have parse3: "demo_json_Unmarshal (bytes_of_string demo_short_key_json) cookieConfig_zero
      = (cookieConfig_zero\<lparr>BlockKey := ''short''\<rparr>, None)"
    by code_simp
  obtain p3 r3 e3 where run3: "?init demo_short_key_json = ((p3, r3), e3)"
    by (metis surj_pair)
  have short: "BlockKey (cookieConfig_zero\<lparr>BlockKey := ''short''\<rparr>) = ''short''"
    by simp
  have e3: "e3 = Some (aes_KeySizeError 5)"
    using SessionInit_contract [OF run3 parse3] short
    by (auto simp: aes_NewCipher_Inl)
  show ?thesis
    using run1 e1 first run2 e2 run3 e3 by auto
qed

text \<open>What one call of \<open>SessionInit\<close> does to \<open>maxlifetime\<close> and \<open>config\<close>, and what a
  sequence of calls does.\<close>

lemma SessionInit_maxlifetime:
  "CookieProvider_SessionInit J G pder rng ml js = ((pder', rng'), err) \<Longrightarrow>
     maxlifetime pder' = (if err = None then ml else maxlifetime pder) \<and> config pder' \<noteq> None"
  by (auto simp: CookieProvider_SessionInit_def Let_def
      split: prod.splits option.splits sum.splits if_splits)

lemma last_successful_Cons:
  "length cs = length es \<Longrightarrow>
   last_successful (c # cs) (e # es) =
     (case last_successful cs es of
        Some ml \<Rightarrow> Some ml
      | None \<Rightarrow> if e = None then Some (fst c) else None)"
  by (auto simp: last_successful_def split: list.splits)

lemma SessionInit_calls_length:
  "SessionInit_calls J G s cs = (s', es) \<Longrightarrow> length es = length cs"
  by (induction cs arbitrary: s s' es) (auto split: prod.splits)

lemma SessionInit_calls_maxlifetime:
  "SessionInit_calls J G s cs = (s', es) \<Longrightarrow>
     maxlifetime (fst s') =
       (case last_successful cs es of None \<Rightarrow> maxlifetime (fst s) | Some ml \<Rightarrow> ml)"
proof (induction cs arbitrary: s s' es)
  case Nil
  then show ?case by (simp add: last_successful_def)
next
  case (Cons c cs)
  obtain p1 r1 e where step:
    "CookieProvider_SessionInit J G (fst s) (snd s) (fst c) (snd c) = ((p1, r1), e)"
    by (metis surj_pair)
  obtain s2 es2 where rest: "SessionInit_calls J G (p1, r1) cs = (s2, es2)"
    by (metis surj_pair)
  from Cons.prems step rest have s': "s' = s2" and es: "es = e # es2" by auto
  have len: "length cs = length es2"
    using SessionInit_calls_length [OF rest] by simp
  have ih: "maxlifetime (fst s2) =
      (case last_successful cs es2 of None \<Rightarrow> maxlifetime p1 | Some ml \<Rightarrow> ml)"
    using Cons.IH [OF rest] by (simp split: option.splits)
  have p1: "maxlifetime p1 = (if e = None then fst c else maxlifetime (fst s))"
    using SessionInit_maxlifetime [OF step] by simp
  show ?case
    unfolding s' es last_successful_Cons [OF len] ih p1
    by (auto split: option.splits)
qed

lemma SessionInit_calls_config:
  "SessionInit_calls J G s cs = (s', es) \<Longrightarrow> cs \<noteq> [] \<Longrightarrow> config (fst s') \<noteq> None"
proof (induction cs arbitrary: s s' es)
  case Nil
  then show ?case by simp
next
  case (Cons c cs)
  obtain p1 r1 e where step:
    "CookieProvider_SessionInit J G (fst s) (snd s) (fst c) (snd c) = ((p1, r1), e)"
    by (metis surj_pair)
  obtain s2 es2 where rest: "SessionInit_calls J G (p1, r1) cs = (s2, es2)"
    by (metis surj_pair)
  from Cons.prems step rest have s': "s' = s2" by auto
  show ?case
  proof (cases cs)
    case Nil
    with rest s' SessionInit_maxlifetime [OF step] show ?thesis by auto
  next
    case (Cons a list)
    with Cons.IH [OF rest] s' show ?thesis by auto
  qed
qed

subsection \<open>The codec, as the specification describes it\<close>

text \<open>Decoding what was encoded, when the library parts undo each other and the
  cookie is not older than the maximum age.\<close>

lemma spec_decode_encode:
  assumes prims: "lossless P"
    and enc: "spec_encodeCookie P T iv blk securityKey securityName vs = (s, None)"
    and fresh: "now - T \<le> maxAge"
  shows "spec_decodeCookie P now blk securityKey securityName s maxAge
           = (Some (entries vs), None)"
proof -
  from enc obtain b c where
    ser: "serialize P (entries vs) = Inr b" and
    cry: "encrypt P blk iv b = Inr c" and
    s: "s = to_urlsafe P (T, auth_tag P securityKey c securityName T, c)"
    by (auto simp: spec_encodeCookie_def split: sum.splits)
  from prims ser have des: "deserialize P b = Inr (entries vs)"
    by (simp add: lossless_def)
  from prims cry have dec: "decrypt P blk c = Inr b"
    unfolding lossless_def by blast
  from prims have parse:
    "from_urlsafe P s = Some (T, auth_tag P securityKey c securityName T, c)"
    by (simp add: lossless_def s)
  show ?thesis
    using fresh parse dec des by (simp add: spec_decodeCookie_def)
qed


lemma spec_decodeCookie_error_nil:
  "snd (spec_decodeCookie P now blk k n s a) \<noteq> None \<longleftrightarrow>
     fst (spec_decodeCookie P now blk k n s a) = None"
  by (auto simp: spec_decodeCookie_def split: option.splits prod.splits sum.splits if_splits)


lemma demo_cookie_decoded:
  "now - 3 \<le> a \<Longrightarrow>
   spec_decodeCookie demo_codec now (block demo_provider) ''k1'' ''s'' demo_cookie a
     = (Some demo_values, None)"
  using spec_decode_encode [OF lossless_demo_codec demo_cookie_encoded, of now a]
  by (simp add: entries_def)

lemma demo_empty_sid_rejected:
  "spec_decodeCookie demo_codec now blk k n [] a = (None, Some (other_error ''invalid value''))"
  by (simp add: spec_decodeCookie_def demo_codec_def demo_from_urlsafe_def)

subsection \<open>SessionRead\<close>

text \<open>
  C3. \<open>SessionRead\<close> on an initialised provider (one whose configuration
  \<open>SessionInit\<close> has set), for every string \<open>sid\<close> and whatever the decoder answers:
  the call returns, never panics, and returns a store that is not nil together with
  a nil error. The store's \<open>SessionID()\<close> is \<open>sid\<close>. Its map is never nil: it is the
  empty map when decoding failed, which the source recognises by the nil map that
  \<open>decodeCookie\<close> returns with every error, and otherwise the map that was decoded.
\<close>

theorem SessionRead_total:
  assumes "config pder = Some cfg"
  shows "\<exists>st. CookieProvider_SessionRead dec pder s = Inr (Some st, None) \<and>
           CookieSessionStore_SessionID st = s \<and>
           values st \<noteq> None \<and>
           (fst (dec (block pder) (SecurityKey cfg) (SecurityName cfg) s (maxlifetime pder)) = None
              \<longrightarrow> values st = Some Map.empty) \<and>
           (\<forall>m. fst (dec (block pder) (SecurityKey cfg) (SecurityName cfg) s (maxlifetime pder))
                   = Some m \<longrightarrow> values st = Some m)"
  using assms
  by (auto simp: CookieProvider_SessionRead_def CookieSessionStore_SessionID_def Let_def
      split: prod.splits option.splits)

text \<open>The initialised provider reads the empty string, which does not decode, and a
  cookie that does.\<close>

theorem SessionRead_total_witness:
  "config demo_provider =
     Some \<lparr>SecurityKey = ''k1'', BlockKey = ''0123456789abcdef'', SecurityName = ''s'',
           CookieName = ''sess'', Secure = False, Maxage = 60\<rparr> \<and>
   fst (spec_decodeCookie demo_codec 10 (block demo_provider) ''k1'' ''s'' [] 3600) = None \<and>
   CookieProvider_SessionRead (spec_decodeCookie demo_codec 10) demo_provider []
     = Inr (Some \<lparr>sid = [], values = Some Map.empty\<rparr>, None) \<and>
   fst (spec_decodeCookie demo_codec 10 (block demo_provider) ''k1'' ''s'' demo_cookie 3600)
     = Some demo_values \<and>
   CookieProvider_SessionRead (spec_decodeCookie demo_codec 10) demo_provider demo_cookie
     = Inr (Some \<lparr>sid = demo_cookie, values = Some demo_values\<rparr>, None)"
proof -
  let ?cfg = "\<lparr>SecurityKey = ''k1'', BlockKey = ''0123456789abcdef'', SecurityName = ''s'',
               CookieName = ''sess'', Secure = False, Maxage = 60\<rparr>"
  have ml: "maxlifetime demo_provider = 3600" by (simp add: demo_provider_def)
  have bad: "fst (spec_decodeCookie demo_codec 10 (block demo_provider) ''k1'' ''s'' [] 3600)
      = None"
    by (simp add: demo_empty_sid_rejected)
  have good: "fst (spec_decodeCookie demo_codec 10 (block demo_provider) ''k1'' ''s''
      demo_cookie 3600) = Some demo_values"
    by (simp add: demo_cookie_decoded)
  show ?thesis
    using SessionRead_total [OF demo_provider_config, of "spec_decodeCookie demo_codec 10" "[]"]
      SessionRead_total [OF demo_provider_config, of "spec_decodeCookie demo_codec 10"
        demo_cookie]
      bad good ml demo_provider_config
    by (auto simp: CookieSessionStore_SessionID_def)
qed

text \<open>Before any \<open>SessionInit\<close> the configuration pointer of the provider is nil, and
  \<open>SessionRead\<close> and \<open>SessionRelease\<close> panic when they dereference it; this is why the
  theorems about them speak of an initialised provider.\<close>

lemma uninitialised_provider_panics:
  "CookieProvider_SessionRead dec cookiepder_zero s = Inl nil_pointer_dereference"
  "CookieSessionStore_SessionRelease enc cookiepder_zero st w = Inl nil_pointer_dereference"
  by (simp_all add: CookieProvider_SessionRead_def CookieSessionStore_SessionRelease_def
      cookiepder_zero_def)

text \<open>
  C6. The maximum age at decode time. After any calls of \<open>SessionInit\<close> of which at
  least one returned a nil error, the provider's \<open>maxlifetime\<close> is the argument of the
  last such call, and \<open>SessionRead\<close> of any \<open>sid\<close> with any decoder is the store made of
  what the decoder answers when its maximum age is that argument. The \<open>maxage\<close> field
  of the configuration plays no part: it only sets the cookie's \<open>MaxAge\<close> in
  \<open>SessionRelease\<close>.
\<close>

theorem SessionRead_uses_maxlifetime:
  assumes calls: "SessionInit_calls J G (pder0, rng0) cs = ((pder, rng), errs)"
    and last: "last_successful cs errs = Some ml"
  shows "maxlifetime pder = ml \<and>
         (\<exists>cfg. config pder = Some cfg \<and>
            CookieProvider_SessionRead dec pder s =
              Inr (Some \<lparr>sid = s,
                          values = Some (entries (fst (dec (block pder) (SecurityKey cfg)
                                                       (SecurityName cfg) s ml)))\<rparr>,
                   None))"
proof -
  have ml: "maxlifetime pder = ml"
    using SessionInit_calls_maxlifetime [OF calls] last by simp
  have "cs \<noteq> []" using last by (auto simp: last_successful_def)
  then obtain cfg where cfg: "config pder = Some cfg"
    using SessionInit_calls_config [OF calls] by auto
  show ?thesis
    using ml cfg
    by (auto simp: CookieProvider_SessionRead_def Let_def entries_def
        split: prod.splits option.splits)
qed

text \<open>The scenario's configuration has \<open>maxage\<close> 60 and is installed with a maximum
  lifetime of 3600; a later call with a payload that is not JSON fails. A decoder that
  reports the maximum age it is given reports 3600, before and after the failed
  call.\<close>

theorem SessionRead_uses_maxlifetime_witness:
  "SessionInit_calls demo_json_Unmarshal demo_generateRandomKey (cookiepder_zero, 7 :: nat)
     [(3600, demo_config_json)] = ((demo_provider, 7), [None]) \<and>
   last_successful [(3600, demo_config_json)] [None] = Some 3600 \<and>
   map_option Maxage (config demo_provider) = Some 60 \<and>
   CookieProvider_SessionRead maxage_probe demo_provider demo_cookie =
     Inr (Some \<lparr>sid = demo_cookie, values = Some [Val ''maxAgeSeconds'' \<mapsto> Val 3600]\<rparr>, None) \<and>
   (\<exists>pder rng.
      SessionInit_calls demo_json_Unmarshal demo_generateRandomKey (cookiepder_zero, 7 :: nat)
        [(3600, demo_config_json), (10, ''{'')]
        = ((pder, rng), [None, Some (other_error ''invalid character'')]) \<and>
      last_successful [(3600, demo_config_json), (10, ''{'')]
        [None, Some (other_error ''invalid character'')] = Some 3600 \<and>
      maxlifetime pder = 3600 \<and>
      CookieProvider_SessionRead maxage_probe pder demo_cookie =
        Inr (Some \<lparr>sid = demo_cookie, values = Some [Val ''maxAgeSeconds'' \<mapsto> Val 3600]\<rparr>,
             None))"
proof -
  have run1: "SessionInit_calls demo_json_Unmarshal demo_generateRandomKey
      (cookiepder_zero, 7 :: nat) [(3600, demo_config_json)] = ((demo_provider, 7), [None])"
    by (simp add: demo_provider_init)
  have last1: "last_successful [(3600, demo_config_json)] [None] = Some 3600"
    by (simp add: last_successful_def)
  have fail: "CookieProvider_SessionInit demo_json_Unmarshal demo_generateRandomKey
      demo_provider (7 :: nat) 10 ''{''
      = ((demo_provider\<lparr>config := Some cookieConfig_zero\<rparr>, 7),
         Some (other_error ''invalid character''))"
    by code_simp
  have run2: "SessionInit_calls demo_json_Unmarshal demo_generateRandomKey
      (cookiepder_zero, 7 :: nat) [(3600, demo_config_json), (10, ''{'')]
      = ((demo_provider\<lparr>config := Some cookieConfig_zero\<rparr>, 7),
         [None, Some (other_error ''invalid character'')])"
    by (simp add: demo_provider_init fail)
  have last2: "last_successful [(3600, demo_config_json), (10, ''{'')]
      [None, Some (other_error ''invalid character'')] = Some 3600"
    by (simp add: last_successful_def)
  have zero: "config (demo_provider\<lparr>config := Some cookieConfig_zero\<rparr>)
      = Some cookieConfig_zero"
    by simp
  show ?thesis
    using SessionRead_uses_maxlifetime [OF run1 last1, of maxage_probe demo_cookie]
      SessionRead_uses_maxlifetime [OF run2 last2, of maxage_probe demo_cookie]
      run1 last1 run2 last2 zero
    by (auto simp: maxage_probe_def entries_def demo_provider_config)
qed

subsection \<open>SessionRelease\<close>



subsection \<open>Round trip and refusal\<close>

text \<open>
  C1. Codec round trip. Let the library parts of the codec undo each other, and let
  encoding the values \<open>vs\<close> at time \<open>T\<close> succeed with the string \<open>s\<close>. Then decoding \<open>s\<close>
  with the same cipher, security key and security name, at any time from \<open>T\<close> on at
  which the cookie is not older than the maximum age, returns the entries of \<open>vs\<close> and
  a nil error. In particular, for a maximum age of at least one second, this is so
  at time \<open>T + maxAge - 1\<close>. And \<open>SessionRead\<close> of \<open>s\<close>, on a provider with that cipher
  and those keys and within its \<open>maxlifetime\<close>, returns a store holding these
  entries.
\<close>

theorem codec_round_trip:
  assumes prims: "lossless P"
    and enc: "spec_encodeCookie P T iv blk securityKey securityName vs = (s, None)"
  shows "(\<forall>now maxAge. T \<le> now \<and> now - T \<le> maxAge \<longrightarrow>
            spec_decodeCookie P now blk securityKey securityName s maxAge
              = (Some (entries vs), None)) \<and>
         (\<forall>maxAge. 1 \<le> maxAge \<longrightarrow>
            spec_decodeCookie P (T + maxAge - 1) blk securityKey securityName s maxAge
              = (Some (entries vs), None)) \<and>
         (\<forall>pder cfg now.
            config pder = Some cfg \<and> block pder = blk \<and> SecurityKey cfg = securityKey \<and>
            SecurityName cfg = securityName \<and> T \<le> now \<and> now - T \<le> maxlifetime pder \<longrightarrow>
            CookieProvider_SessionRead (spec_decodeCookie P now) pder s
              = Inr (Some \<lparr>sid = s, values = Some (entries vs)\<rparr>, None))"
  using spec_decode_encode [OF prims enc]
  by (auto simp: CookieProvider_SessionRead_def)

text \<open>The scenario's cookie, made at time 3 with a maximum age of 3600, read back at
  time 3602.\<close>

theorem codec_round_trip_witness:
  "lossless demo_codec \<and>
   spec_encodeCookie demo_codec 3 demo_iv (block demo_provider) ''k1'' ''s''
     (Some demo_values) = (demo_cookie, None) \<and>
   spec_decodeCookie demo_codec 3602 (block demo_provider) ''k1'' ''s'' demo_cookie 3600
     = (Some demo_values, None) \<and>
   CookieProvider_SessionRead (spec_decodeCookie demo_codec 3602) demo_provider demo_cookie
     = Inr (Some \<lparr>sid = demo_cookie, values = Some demo_values\<rparr>, None)"
proof -
  note trip = codec_round_trip [OF lossless_demo_codec demo_cookie_encoded]
  have pder: "config demo_provider = Some \<lparr>SecurityKey = ''k1'',
      BlockKey = ''0123456789abcdef'', SecurityName = ''s'', CookieName = ''sess'',
      Secure = False, Maxage = 60\<rparr>" "maxlifetime demo_provider = 3600"
    by (simp_all add: demo_provider_def)
  from trip have "spec_decodeCookie demo_codec (3 + 3600 - 1) (block demo_provider)
      ''k1'' ''s'' demo_cookie 3600 = (Some (entries (Some demo_values)), None)"
    by (elim conjE allE [of _ 3600]) simp
  moreover from trip pder
  have "CookieProvider_SessionRead (spec_decodeCookie demo_codec 3602) demo_provider
      demo_cookie
      = Inr (Some \<lparr>sid = demo_cookie, values = Some (entries (Some demo_values))\<rparr>, None)"
    by (elim conjE allE [of _ demo_provider] allE [of _ 3602]) auto
  ultimately show ?thesis
    by (simp add: lossless_demo_codec demo_cookie_encoded entries_def)
qed



end
